theory Spec2Isabelle
  imports Complex_Main
begin

section \<open>Digital spirometer simulator: predictor, breath simulation, interpretation\<close>

text \<open>
  The development embeds the three computational functions of \<^verbatim>\<open>spirometer_final.py\<close>:
  \<^verbatim>\<open>calculate_spirometry\<close>, \<^verbatim>\<open>simulate_breath\<close> and \<^verbatim>\<open>interpret_results\<close>.

  Numbers: the program computes with binary floating point. The embedding uses the type
  \<^typ>\<open>real\<close>: every arithmetic operation is the exact one and rounding is not
  represented. Decimal literals of the source such as \<^verbatim>\<open>0.052\<close> are the exact rationals
  they denote. Infinities, not-a-number and the negative zero are represented where the
  source can produce them from finite values, in the division of \<^verbatim>\<open>interpret_results\<close>.
\<close>

subsection \<open>Strings: lowercasing\<close>

text \<open>
  \<^verbatim>\<open>sex.lower()\<close>. A \<^typ>\<open>string\<close> is a list of bytes; the letters \<^verbatim>\<open>A\<close> to
  \<^verbatim>\<open>Z\<close> are mapped to \<^verbatim>\<open>a\<close> to \<^verbatim>\<open>z\<close>, every other byte is kept. (Python lowercases
  non-ASCII letters as well; none of them becomes one of the ASCII letters
  \<^verbatim>\<open>m\<close>, \<^verbatim>\<open>a\<close>, \<^verbatim>\<open>l\<close>, \<^verbatim>\<open>e\<close>, so the comparison with \<^verbatim>\<open>"male"\<close> is not affected.)
\<close>

definition lower_char :: "char \<Rightarrow> char" where
  "lower_char c =
     (case map_of (zip ''ABCDEFGHIJKLMNOPQRSTUVWXYZ'' ''abcdefghijklmnopqrstuvwxyz'') c of
        Some d \<Rightarrow> d
      | None \<Rightarrow> c)"

definition lower :: "string \<Rightarrow> string" where
  "lower s = map lower_char s"

subsection \<open>Spirometry calculations\<close>

text \<open>
  \<^verbatim>\<open>calculate_spirometry(age, height, sex, smoker)\<close>, source lines 10 to 22. The function
  is split where the source has its three stages: the sex-specific regression
  (lines 11 to 16), the smoker adjustment (lines 18 to 20) and the floors (line 22).
\<close>

definition regression :: "real \<Rightarrow> real \<Rightarrow> string \<Rightarrow> real \<times> real" where
  "regression age height sex =
     (if lower sex = ''male''
      then (0.052 * height - 0.022 * age - 3.60, 0.041 * height - 0.018 * age - 2.69)
      else (0.041 * height - 0.018 * age - 2.69, 0.034 * height - 0.013 * age - 1.74))"

definition smoker_adjust :: "bool \<Rightarrow> real \<times> real \<Rightarrow> real \<times> real" where
  "smoker_adjust smoker p =
     (if smoker then (fst p * 0.9, snd p * 0.85) else p)"

definition pre_floor :: "real \<Rightarrow> real \<Rightarrow> string \<Rightarrow> bool \<Rightarrow> real \<times> real" where
  "pre_floor age height sex smoker = smoker_adjust smoker (regression age height sex)"

definition calculate_spirometry :: "real \<Rightarrow> real \<Rightarrow> string \<Rightarrow> bool \<Rightarrow> real \<times> real" where
  "calculate_spirometry age height sex smoker =
     (let (fvc_pred, fev1_pred) = pre_floor age height sex smoker
      in (max fvc_pred 1.5, max fev1_pred 1.0))"

subsection \<open>Interpretation\<close>

text \<open>
  \<^verbatim>\<open>interpret_results(fvc, fev1)\<close>, source lines 66 to 73. The only failure the function
  can have is the one of the division \<^verbatim>\<open>fev1 / fvc\<close>.
\<close>

datatype error = ZeroDivisionError

text \<open>
  The values of a 64-bit float that matter for the division: \<open>Finite r\<close> is the finite
  value \<open>r\<close> (\<open>Finite 0\<close> is the positive zero), \<open>NegZero\<close> is \<^verbatim>\<open>-0.0\<close>, then the two
  infinities and not-a-number. Arithmetic on finite values is exact.
\<close>

datatype float64 = Finite real | NegZero | PosInf | NegInf | NaN

fun is_nan :: "float64 \<Rightarrow> bool" where
  "is_nan NaN = True"
| "is_nan x = False"

fun is_inf :: "float64 \<Rightarrow> bool" where
  "is_inf PosInf = True"
| "is_inf NegInf = True"
| "is_inf x = False"

fun is_finite :: "float64 \<Rightarrow> bool" where
  "is_finite (Finite r) = True"
| "is_finite NegZero = True"
| "is_finite x = False"

fun is_zero :: "float64 \<Rightarrow> bool" where
  "is_zero (Finite r) = (r = 0)"
| "is_zero NegZero = True"
| "is_zero x = False"

fun signbit :: "float64 \<Rightarrow> bool" where
  "signbit (Finite r) = (r < 0)"
| "signbit NegZero = True"
| "signbit NegInf = True"
| "signbit x = False"

fun real_of :: "float64 \<Rightarrow> real" where
  "real_of (Finite r) = r"
| "real_of x = 0"

text \<open>
  Division of two float values by the IEEE 754 rules: not-a-number propagates, and so do
  \<open>inf / inf\<close> and \<open>0 / 0\<close>; a nonzero value divided by a zero is an infinity and a finite
  value divided by an infinity is a zero, each with the sign of the quotient.
\<close>

definition signed_inf :: "bool \<Rightarrow> float64" where
  "signed_inf negative = (if negative then NegInf else PosInf)"

definition signed_zero :: "bool \<Rightarrow> float64" where
  "signed_zero negative = (if negative then NegZero else Finite 0)"

definition ieee_divide :: "float64 \<Rightarrow> float64 \<Rightarrow> float64" where
  "ieee_divide x y =
     (if is_nan x \<or> is_nan y then NaN
      else if is_inf x then (if is_inf y then NaN else signed_inf (signbit x \<noteq> signbit y))
      else if is_inf y then signed_zero (signbit x \<noteq> signbit y)
      else if is_zero y then (if is_zero x then NaN else signed_inf (signbit x \<noteq> signbit y))
      else if is_zero x then signed_zero (signbit x \<noteq> signbit y)
      else Finite (real_of x / real_of y))"

text \<open>
  A Python argument carries its class. \<open>PyNumber\<close> is a built-in number (\<^verbatim>\<open>float\<close>, or an
  \<^verbatim>\<open>int\<close> taken as its float value), \<open>NpFloat64\<close> is a \<^verbatim>\<open>numpy.float64\<close> scalar, which is
  what \<^verbatim>\<open>np.trapz\<close> returns and what the caller of lines 146 to 151 passes on.
  The operator \<^verbatim>\<open>a / b\<close> raises \<^verbatim>\<open>ZeroDivisionError\<close> for a zero divisor when both operands
  are built-in numbers. When an operand is a numpy scalar the division is numpy's, which
  in its default error state warns and returns the IEEE result.
\<close>

datatype number = PyNumber float64 | NpFloat64 float64

fun val :: "number \<Rightarrow> float64" where
  "val (PyNumber x) = x"
| "val (NpFloat64 x) = x"

fun is_numpy :: "number \<Rightarrow> bool" where
  "is_numpy (NpFloat64 x) = True"
| "is_numpy (PyNumber x) = False"

definition truediv :: "number \<Rightarrow> number \<Rightarrow> error + float64" where
  "truediv a b =
     (if is_zero (val b) \<and> \<not> is_numpy a \<and> \<not> is_numpy b then Inl ZeroDivisionError
      else Inr (ieee_divide (val a) (val b)))"

text \<open>
  The comparison \<^verbatim>\<open>ratio >= c\<close> with a finite literal \<open>c\<close>; it is false for not-a-number
  and never raises.
\<close>

fun ge_literal :: "float64 \<Rightarrow> real \<Rightarrow> bool" where
  "ge_literal (Finite r) c = (r \<ge> c)"
| "ge_literal NegZero c = (0 \<ge> c)"
| "ge_literal PosInf c = True"
| "ge_literal NegInf c = False"
| "ge_literal NaN c = False"

text \<open>The three results are the string literals of the source.\<close>

definition Normal :: string where
  "Normal = ''Normal Lung Function''"

definition MildObstruction :: string where
  "MildObstruction = ''Mild Obstruction''"

definition SevereObstruction :: string where
  "SevereObstruction = ''Severe Obstruction''"

text \<open>
  Lines 67 to 73: the division of line 67, which has no guard of its own, then the two
  comparisons.
\<close>

definition interpret_results :: "number \<Rightarrow> number \<Rightarrow> error + string" where
  "interpret_results fvc fev1 =
     (case truediv fev1 fvc of
        Inl e \<Rightarrow> Inl e
      | Inr ratio \<Rightarrow>
          if ge_literal ratio 0.7 then Inr Normal
          else if ge_literal ratio 0.5 then Inr MildObstruction
          else Inr SevereObstruction)"

subsection \<open>Breath simulation\<close>

text \<open>
  \<^verbatim>\<open>simulate_breath(fvc_pred, fev1_pred, canvas, fig, ax, time_var, flow_var, volume_var)\<close>,
  source lines 25 to 63. \<^verbatim>\<open>total_points = 120\<close> is the local constant of line 29.
\<close>

definition total_points :: nat where
  "total_points = 120"

text \<open>
  The numerical library functions the source calls, over lists of reals.
  \<^verbatim>\<open>np.linspace(start, stop, num)\<close> with its default \<^verbatim>\<open>endpoint=True\<close>: \<open>num\<close> evenly
  spaced values, step \<open>(stop - start) / (num - 1)\<close>, the last one set to \<open>stop\<close>.
  \<^verbatim>\<open>np.zeros(n)\<close>. \<^verbatim>\<open>np.diff(x)\<close> is \<^verbatim>\<open>x[1:] - x[:-1]\<close>, and \<^verbatim>\<open>np.trapz(y, x)\<close> is
  \<^verbatim>\<open>(diff(x) * (y[1:] + y[:-1]) / 2.0).sum()\<close>; the source calls it only with two arrays
  of the same length.
\<close>

definition linspace :: "real \<Rightarrow> real \<Rightarrow> nat \<Rightarrow> real list" where
  "linspace start stop num =
     (let step = (stop - start) / real (num - 1);
          y = map (\<lambda>i. real i * step + start) [0..<num]
      in if num > 1 then y[num - 1 := stop] else y)"

definition zeros :: "nat \<Rightarrow> real list" where
  "zeros n = replicate n 0"

definition diff :: "real list \<Rightarrow> real list" where
  "diff x = map2 (\<lambda>a b. a - b) (tl x) (butlast x)"

definition trapz :: "real list \<Rightarrow> real list \<Rightarrow> real" where
  "trapz y x = sum_list (map2 (\<lambda>d s. d * s / 2) (diff x) (map2 (\<lambda>a b. a + b) (tl y) (butlast y)))"

text \<open>
  The random source, injected: \<open>rand1\<close> and \<open>rand2\<close> are the results of the two calls of
  \<^verbatim>\<open>np.random.rand()\<close> (lines 34 and 35), \<open>normal i\<close> is the result of
  \<^verbatim>\<open>np.random.normal(0, 0.03)\<close> in iteration \<open>i\<close> of the loop (line 39).
\<close>

record random_source =
  rand1 :: real
  rand2 :: real
  normal :: "nat \<Rightarrow> real"

text \<open>
  The effects on the user interface are kept as a log of events, in the order the source
  performs them. \<open>AxClear\<close> is the \<^verbatim>\<open>ax.clear()\<close> of line 28. \<open>Readout t f v\<close> is the
  update of the three live readouts \<^verbatim>\<open>time_var\<close>, \<^verbatim>\<open>flow_var\<close>, \<^verbatim>\<open>volume_var\<close> of lines
  45 to 47 from \<^verbatim>\<open>t[i]\<close>, \<^verbatim>\<open>flow[i]\<close>, \<^verbatim>\<open>volume[i]\<close> (the event carries the numbers;
  their formatting to one or two decimals is not modelled). \<open>Redraw ts fs\<close> is the chart
  redraw of lines 49 to 58, which plots \<^verbatim>\<open>flow[:i+1]\<close> against \<^verbatim>\<open>t[:i+1]\<close>; the pause
  \<^verbatim>\<open>time.sleep(0.02)\<close> that follows it has no effect on the values.
\<close>

datatype event =
    AxClear
  | Readout real real real
  | Redraw "real list" "real list"

record sim_state =
  flow :: "real list"
  volume :: "real list"
  display :: "event list"

text \<open>The time grid of line 30.\<close>

definition time_grid :: "real list" where
  "time_grid = linspace 0 6 total_points"

text \<open>
  One iteration of the loop of lines 37 to 58, for index \<open>i\<close>. The arrays have
  \<open>total_points\<close> entries and \<open>i\<close> is below \<open>total_points\<close>, so every indexed write is in
  range.
\<close>

definition loop_body :: "real list \<Rightarrow> real \<Rightarrow> real \<Rightarrow> (nat \<Rightarrow> real) \<Rightarrow> sim_state \<Rightarrow> nat \<Rightarrow> sim_state" where
  "loop_body t peak_flow decay noise s i =
     (let flow1 = (flow s)[i := (peak_flow * (real i / real total_points))
                                  * exp (- decay * real i / real total_points)];
          flow2 = flow1[i := flow1 ! i + noise i];
          volume1 = (if i > 0 then (volume s)[i := trapz (take (i + 1) flow2) (take (i + 1) t)]
                     else volume s);
          display1 = (if i mod 20 = 0
                      then display s @ [Readout (t ! i) (flow2 ! i) (volume1 ! i)]
                      else display s);
          display2 = display1 @ [Redraw (take (i + 1) t) (take (i + 1) flow2)]
      in \<lparr>flow = flow2, volume = volume1, display = display2\<rparr>)"

text \<open>The two scalars drawn once per run, lines 34 and 35.\<close>

definition peak_flow_of :: "real \<Rightarrow> random_source \<Rightarrow> real" where
  "peak_flow_of fvc_pred rng = fvc_pred * (0.8 + 0.4 * rand1 rng)"

definition decay_of :: "random_source \<Rightarrow> real" where
  "decay_of rng = 2.5 + rand2 rng"

text \<open>
  The state after the loop: \<^verbatim>\<open>for i in range(total_points)\<close> from the arrays of zeros of
  lines 31 and 32. \<open>simulate_breath\<close> then computes the two measured values of lines 60
  and 61 and returns them, FVC first. Its parameter \<open>fev1_pred\<close> is not used by the source.
\<close>

definition breath_loop :: "real \<Rightarrow> random_source \<Rightarrow> sim_state" where
  "breath_loop fvc_pred rng =
     foldl (loop_body time_grid (peak_flow_of fvc_pred rng) (decay_of rng) (normal rng))
       \<lparr>flow = zeros total_points, volume = zeros total_points, display = [AxClear]\<rparr>
       [0..<total_points]"

definition simulate_breath :: "real \<Rightarrow> real \<Rightarrow> random_source \<Rightarrow> real \<times> real" where
  "simulate_breath fvc_pred fev1_pred rng =
     (let s = breath_loop fvc_pred rng;
          fev1_measured = trapz (take (nat \<lfloor>real total_points / 6\<rfloor>) (flow s))
                                (take (nat \<lfloor>real total_points / 6\<rfloor>) time_grid);
          fvc_measured = trapz (flow s) time_grid
      in (fvc_measured, fev1_measured))"

subsection \<open>Reference formulas\<close>

text \<open>
  The composite trapezoidal rule over the first \<open>n\<close> samples of a series \<open>y\<close> against the
  abscissae \<open>x\<close>, as a sum; the integral that \<open>trapz\<close> is compared with.
\<close>

definition trapezoid_rule :: "(nat \<Rightarrow> real) \<Rightarrow> (nat \<Rightarrow> real) \<Rightarrow> nat \<Rightarrow> real" where
  "trapezoid_rule y x n = (\<Sum>k<n - 1. (x (k + 1) - x k) * (y (k + 1) + y k) / 2)"

text \<open>Selecting the events of one kind from the log.\<close>

fun is_readout :: "event \<Rightarrow> bool" where
  "is_readout (Readout t f v) = True"
| "is_readout e = False"

fun is_redraw :: "event \<Rightarrow> bool" where
  "is_redraw (Redraw ts fs) = True"
| "is_redraw e = False"

text \<open>
  Closed forms of what the loop leaves in the arrays and in the log: the flow sample of
  lines 38 and 39, the volume sample of line 42, and the log after \<open>k\<close> iterations.
\<close>

definition flow_at :: "real \<Rightarrow> real \<Rightarrow> (nat \<Rightarrow> real) \<Rightarrow> nat \<Rightarrow> real" where
  "flow_at peak_flow decay noise i =
     peak_flow * (real i / real total_points) * exp (- decay * (real i / real total_points))
     + noise i"

definition volume_at :: "real list \<Rightarrow> (nat \<Rightarrow> real) \<Rightarrow> nat \<Rightarrow> real" where
  "volume_at t f i = trapz (map f [0..<i + 1]) (take (i + 1) t)"

definition display_upto :: "real list \<Rightarrow> (nat \<Rightarrow> real) \<Rightarrow> nat \<Rightarrow> event list" where
  "display_upto t f k =
     AxClear # concat (map (\<lambda>i. (if i mod 20 = 0 then [Readout (t ! i) (f i) (volume_at t f i)]
                                 else [])
                                @ [Redraw (take (i + 1) t) (map f [0..<i + 1])]) [0..<k])"

text \<open>A concrete random source, for evaluating the simulation on an example run.\<close>

definition no_noise :: "nat \<Rightarrow> real" where
  "no_noise i = 0"

definition quiet_source :: random_source where
  "quiet_source = \<lparr>rand1 = 1 / 2, rand2 = 1 / 2, normal = no_noise\<rparr>"

section \<open>Properties\<close>

subsection \<open>Helper facts\<close>

lemma interpretations_distinct:
  "Normal \<noteq> MildObstruction" "Normal \<noteq> SevereObstruction"
  "MildObstruction \<noteq> SevereObstruction"
  "MildObstruction \<noteq> Normal" "SevereObstruction \<noteq> Normal"
  "SevereObstruction \<noteq> MildObstruction"
  by (simp_all add: Normal_def MildObstruction_def SevereObstruction_def)

lemma lower_Male: "lower ''Male'' = ''male''"
  by (simp add: lower_def lower_char_def)

lemma lower_Female: "lower ''Female'' \<noteq> ''male''"
  by (simp add: lower_def lower_char_def)

lemma lower_MALE: "lower ''MALE'' = ''male''"
  by (simp add: lower_def lower_char_def)

lemma lower_other:
  "lower ''other'' \<noteq> ''male''" "lower [] \<noteq> ''male''"
  by (simp_all add: lower_def lower_char_def)

subsection \<open>Interpreter\<close>

lemma ge_literal_finite_ratio:
  assumes "is_finite x" "is_finite y" "real_of y \<noteq> 0"
  shows "ge_literal (ieee_divide x y) c = (real_of x / real_of y \<ge> c)"
proof -
  obtain b where y: "y = Finite b" "b \<noteq> 0"
    using assms(2,3) by (cases y) simp_all
  show ?thesis
  proof (cases x)
    case (Finite a)
    then show ?thesis using y by (simp add: ieee_divide_def signed_zero_def)
  next
    case NegZero
    then show ?thesis using y by (simp add: ieee_divide_def signed_zero_def)
  qed (use assms(1) in simp_all)
qed

lemma truediv_finite:
  assumes "real_of (val fvc) \<noteq> 0"
  shows "truediv fev1 fvc = Inr (ieee_divide (val fev1) (val fvc))"
proof -
  have "\<not> is_zero (val fvc)" using assms by (cases "val fvc") simp_all
  then show ?thesis by (simp add: truediv_def)
qed

text \<open>
  Claim C1. For a nonzero \<open>fvc\<close> and \<open>ratio = fev1 / fvc\<close>, \<open>interpret_results\<close> returns
  Normal exactly when \<open>ratio \<ge> 0.70\<close>, Mild Obstruction exactly when
  \<open>0.50 \<le> ratio < 0.70\<close> and Severe Obstruction exactly when \<open>ratio < 0.50\<close>; both lower
  bounds are inclusive. This holds for finite arguments of either class.
\<close>

theorem interpret_thresholds:
  assumes "is_finite (val fvc)" "is_finite (val fev1)" "real_of (val fvc) \<noteq> 0"
  shows "(interpret_results fvc fev1 = Inr Normal
            \<longleftrightarrow> real_of (val fev1) / real_of (val fvc) \<ge> 0.70)
       \<and> (interpret_results fvc fev1 = Inr MildObstruction
            \<longleftrightarrow> 0.50 \<le> real_of (val fev1) / real_of (val fvc)
                \<and> real_of (val fev1) / real_of (val fvc) < 0.70)
       \<and> (interpret_results fvc fev1 = Inr SevereObstruction
            \<longleftrightarrow> real_of (val fev1) / real_of (val fvc) < 0.50)
       \<and> (real_of (val fev1) / real_of (val fvc) = 0.70
            \<longrightarrow> interpret_results fvc fev1 = Inr Normal)
       \<and> (real_of (val fev1) / real_of (val fvc) = 0.50
            \<longrightarrow> interpret_results fvc fev1 = Inr MildObstruction)"
proof -
  define r where "r = real_of (val fev1) / real_of (val fvc)"
  have ge: "\<And>c. ge_literal (ieee_divide (val fev1) (val fvc)) c = (r \<ge> c)"
    unfolding r_def by (rule ge_literal_finite_ratio [OF assms(2) assms(1) assms(3)])
  have eq: "interpret_results fvc fev1 =
              (if r \<ge> 0.7 then Inr Normal
               else if r \<ge> 0.5 then Inr MildObstruction else Inr SevereObstruction)"
    unfolding interpret_results_def truediv_finite [OF assms(3)] by (simp only: sum.case ge)
  have "(interpret_results fvc fev1 = Inr Normal \<longleftrightarrow> r \<ge> 0.70)
       \<and> (interpret_results fvc fev1 = Inr MildObstruction \<longleftrightarrow> 0.50 \<le> r \<and> r < 0.70)
       \<and> (interpret_results fvc fev1 = Inr SevereObstruction \<longleftrightarrow> r < 0.50)
       \<and> (r = 0.70 \<longrightarrow> interpret_results fvc fev1 = Inr Normal)
       \<and> (r = 0.50 \<longrightarrow> interpret_results fvc fev1 = Inr MildObstruction)"
    unfolding eq by (auto simp: interpretations_distinct)
  then show ?thesis unfolding r_def .
qed

theorem interpret_thresholds_witness:
  "is_finite (Finite 1) \<and> is_finite (Finite 0.7) \<and> real_of (Finite 1) \<noteq> 0
   \<and> interpret_results (NpFloat64 (Finite 1)) (NpFloat64 (Finite 0.7)) = Inr Normal
   \<and> interpret_results (NpFloat64 (Finite 2)) (NpFloat64 (Finite 1)) = Inr MildObstruction
   \<and> interpret_results (NpFloat64 (Finite 1)) (NpFloat64 (Finite 0.6999)) = Inr MildObstruction
   \<and> interpret_results (NpFloat64 (Finite 1)) (NpFloat64 (Finite 0.4999)) = Inr SevereObstruction
   \<and> interpret_results (PyNumber (Finite 1)) (PyNumber (Finite 0.7)) = Inr Normal
   \<and> interpret_results (PyNumber (Finite 2)) (PyNumber (Finite 1)) = Inr MildObstruction
   \<and> interpret_results (PyNumber (Finite 1)) (PyNumber (Finite 0.4999)) = Inr SevereObstruction"
  using interpret_thresholds [of "NpFloat64 (Finite 1)" "NpFloat64 (Finite 0.7)"]
    interpret_thresholds [of "NpFloat64 (Finite 2)" "NpFloat64 (Finite 1)"]
    interpret_thresholds [of "NpFloat64 (Finite 1)" "NpFloat64 (Finite 0.6999)"]
    interpret_thresholds [of "NpFloat64 (Finite 1)" "NpFloat64 (Finite 0.4999)"]
    interpret_thresholds [of "PyNumber (Finite 1)" "PyNumber (Finite 0.7)"]
    interpret_thresholds [of "PyNumber (Finite 2)" "PyNumber (Finite 1)"]
    interpret_thresholds [of "PyNumber (Finite 1)" "PyNumber (Finite 0.4999)"]
  by simp

text \<open>
  Claim C6, as stated: \<open>interpret_results\<close> would fail with the division error whenever
  \<open>fvc\<close> is zero. For the numpy scalars that the program passes it returns an
  interpretation.
\<close>

theorem interpret_zero_counterexample:
  "interpret_results (NpFloat64 (Finite 0)) (NpFloat64 (Finite 1)) = Inr Normal
   \<and> interpret_results (NpFloat64 (Finite 0)) (NpFloat64 (Finite 0)) = Inr SevereObstruction
   \<and> interpret_results (NpFloat64 (Finite 0)) (NpFloat64 (Finite (- 1))) = Inr SevereObstruction"
  by (simp add: interpret_results_def truediv_def ieee_divide_def signed_inf_def)

text \<open>
  Claim C6, amended. \<open>interpret_results\<close> fails, with the division error, exactly when
  \<open>fvc\<close> is zero and both arguments are built-in numbers. When an argument is a numpy
  scalar it never fails: for a zero \<open>fvc\<close> it returns Normal when the quotient is the
  positive infinity and Severe Obstruction when it is the negative infinity or
  not-a-number. For every nonzero \<open>fvc\<close> it returns one of the three interpretations.
\<close>

theorem interpret_division_error:
  "(interpret_results fvc fev1 = Inl ZeroDivisionError
      \<longleftrightarrow> is_zero (val fvc) \<and> \<not> is_numpy fvc \<and> \<not> is_numpy fev1)
   \<and> (is_numpy fvc \<or> is_numpy fev1 \<or> \<not> is_zero (val fvc) \<longrightarrow>
        interpret_results fvc fev1 \<in> {Inr Normal, Inr MildObstruction, Inr SevereObstruction})
   \<and> ((is_numpy fvc \<or> is_numpy fev1) \<and> is_zero (val fvc) \<longrightarrow>
        interpret_results fvc fev1
          = (if ieee_divide (val fev1) (val fvc) = PosInf then Inr Normal
             else Inr SevereObstruction))"
proof -
  have a: "interpret_results fvc fev1 = Inl ZeroDivisionError
            \<longleftrightarrow> is_zero (val fvc) \<and> \<not> is_numpy fvc \<and> \<not> is_numpy fev1"
    by (auto simp: interpret_results_def truediv_def)
  have b: "is_numpy fvc \<or> is_numpy fev1 \<or> \<not> is_zero (val fvc) \<longrightarrow>
        interpret_results fvc fev1 \<in> {Inr Normal, Inr MildObstruction, Inr SevereObstruction}"
    by (auto simp: interpret_results_def truediv_def)
  have c: "(is_numpy fvc \<or> is_numpy fev1) \<and> is_zero (val fvc) \<longrightarrow>
        interpret_results fvc fev1
          = (if ieee_divide (val fev1) (val fvc) = PosInf then Inr Normal
             else Inr SevereObstruction)"
  proof (intro impI, elim conjE)
    assume np: "is_numpy fvc \<or> is_numpy fev1" and z: "is_zero (val fvc)"
    have t: "truediv fev1 fvc = Inr (ieee_divide (val fev1) (val fvc))"
      using np by (auto simp: truediv_def)
    have "ieee_divide (val fev1) (val fvc) \<in> {PosInf, NegInf, NaN}"
      using z by (cases "val fev1"; cases "val fvc")
        (simp_all add: ieee_divide_def signed_inf_def)
    then show "interpret_results fvc fev1
          = (if ieee_divide (val fev1) (val fvc) = PosInf then Inr Normal
             else Inr SevereObstruction)"
      unfolding interpret_results_def t by auto
  qed
  from a b c show ?thesis by blast
qed

theorem interpret_division_error_witness:
  "is_zero (val (PyNumber (Finite 0))) \<and> \<not> is_numpy (PyNumber (Finite 0))
   \<and> interpret_results (PyNumber (Finite 0)) (PyNumber (Finite 1)) = Inl ZeroDivisionError
   \<and> is_numpy (NpFloat64 (Finite 0)) \<and> is_zero (val (NpFloat64 (Finite 0)))
   \<and> interpret_results (NpFloat64 (Finite 0)) (NpFloat64 (Finite 1)) = Inr Normal
   \<and> interpret_results (NpFloat64 NegZero) (NpFloat64 (Finite 1)) = Inr SevereObstruction
   \<and> interpret_results (NpFloat64 (Finite 0)) (NpFloat64 (Finite 0)) = Inr SevereObstruction
   \<and> \<not> is_zero (val (PyNumber (Finite 4)))
   \<and> interpret_results (PyNumber (Finite 4)) (PyNumber (Finite 3))
       \<in> {Inr Normal, Inr MildObstruction, Inr SevereObstruction}"
  using interpret_division_error [of "PyNumber (Finite 0)" "PyNumber (Finite 1)"]
    interpret_division_error [of "NpFloat64 (Finite 0)" "NpFloat64 (Finite 1)"]
    interpret_division_error [of "NpFloat64 NegZero" "NpFloat64 (Finite 1)"]
    interpret_division_error [of "NpFloat64 (Finite 0)" "NpFloat64 (Finite 0)"]
    interpret_division_error [of "PyNumber (Finite 4)" "PyNumber (Finite 3)"]
  by (simp add: ieee_divide_def signed_inf_def)

subsection \<open>Predictor\<close>

text \<open>
  Claim C2, as stated, at its example: for age 30, height 170, sex Male, non-smoker the
  claim gives the predicted values 3.92 and 3.18. The function does not return them.
\<close>

theorem predict_example_counterexample:
  "calculate_spirometry 30 170 ''Male'' False \<noteq> (3.92, 3.18)"
  by (simp add: calculate_spirometry_def pre_floor_def smoker_adjust_def regression_def
      lower_Male)

text \<open>
  Claim C2, amended. The regression is the sex-specific linear one of the claim (male:
  \<open>fvc = 0.052 h - 0.022 a - 3.60\<close>, \<open>fev1 = 0.041 h - 0.018 a - 2.69\<close>; otherwise:
  \<open>fvc = 0.041 h - 0.018 a - 2.69\<close>, \<open>fev1 = 0.034 h - 0.013 a - 1.74\<close>), it is computed
  before the smoker adjustment and the floors, and for age 30, height 170, Male,
  non-smoker the result is 4.58 and 3.74.
\<close>

theorem predict_regression:
  "(lower sex = ''male'' \<longrightarrow>
      regression age height sex
        = (0.052 * height - 0.022 * age - 3.60, 0.041 * height - 0.018 * age - 2.69))
   \<and> (lower sex \<noteq> ''male'' \<longrightarrow>
      regression age height sex
        = (0.041 * height - 0.018 * age - 2.69, 0.034 * height - 0.013 * age - 1.74))
   \<and> calculate_spirometry age height sex smoker
        = (max (fst (smoker_adjust smoker (regression age height sex))) 1.5,
           max (snd (smoker_adjust smoker (regression age height sex))) 1.0)
   \<and> calculate_spirometry 30 170 ''Male'' False = (4.58, 3.74)"
  by (simp add: calculate_spirometry_def pre_floor_def smoker_adjust_def regression_def
      lower_Male split: prod.splits)

theorem predict_regression_witness:
  "lower ''Male'' = ''male'' \<and> regression 30 170 ''Male'' = (4.58, 3.74)
   \<and> lower ''Female'' \<noteq> ''male'' \<and> regression 30 170 ''Female'' = (3.74, 3.65)"
  using predict_regression [of "''Male''" 30 170 False]
    predict_regression [of "''Female''" 30 170 False]
  by (simp add: lower_Male lower_Female)

text \<open>
  Claim C7. For every age, height, sex and smoker flag, \<open>calculate_spirometry\<close> returns a
  predicted FVC of at least 1.5 and a predicted FEV1 of at least 1.0. The function is
  total: it has no failing branch.
\<close>

theorem predict_floors:
  "fst (calculate_spirometry age height sex smoker) \<ge> 1.5
   \<and> snd (calculate_spirometry age height sex smoker) \<ge> 1.0"
  by (simp add: calculate_spirometry_def max_def split: prod.splits)

text \<open>
  Claim C8. For two profiles that differ only in the smoker flag, the smoker's values
  before the floors are 0.90 times the non-smoker's FVC and 0.85 times the non-smoker's
  FEV1, hence strictly lower whenever the non-smoker's value is positive.
\<close>

theorem smoker_ratio:
  "fst (pre_floor age height sex True) = 0.90 * fst (pre_floor age height sex False)
   \<and> snd (pre_floor age height sex True) = 0.85 * snd (pre_floor age height sex False)
   \<and> (0 < fst (pre_floor age height sex False) \<longrightarrow>
        fst (pre_floor age height sex True) < fst (pre_floor age height sex False))
   \<and> (0 < snd (pre_floor age height sex False) \<longrightarrow>
        snd (pre_floor age height sex True) < snd (pre_floor age height sex False))"
  by (simp add: pre_floor_def smoker_adjust_def)

theorem smoker_ratio_witness:
  "(0::real) < fst (pre_floor 30 170 ''Male'' False)
   \<and> fst (pre_floor 30 170 ''Male'' True) < fst (pre_floor 30 170 ''Male'' False)
   \<and> (0::real) < snd (pre_floor 30 170 ''Male'' False)
   \<and> snd (pre_floor 30 170 ''Male'' True) < snd (pre_floor 30 170 ''Male'' False)"
proof -
  have "(0::real) < fst (pre_floor 30 170 ''Male'' False)"
    "(0::real) < snd (pre_floor 30 170 ''Male'' False)"
    by (simp_all add: pre_floor_def smoker_adjust_def regression_def lower_Male)
  then show ?thesis using smoker_ratio [of 30 170 "''Male''"] by blast
qed

text \<open>
  Claim C10. Every sex string that is not \<open>male\<close> after lowercasing, \<open>Female\<close> and any
  other string alike, takes the female coefficients; the predictor rejects no sex value.
\<close>

theorem sex_default_female:
  assumes "lower sex \<noteq> ''male''"
  shows "calculate_spirometry age height sex False
           = (max (0.041 * height - 0.018 * age - 2.69) 1.5,
              max (0.034 * height - 0.013 * age - 1.74) 1.0)
       \<and> calculate_spirometry age height sex True
           = (max ((0.041 * height - 0.018 * age - 2.69) * 0.9) 1.5,
              max ((0.034 * height - 0.013 * age - 1.74) * 0.85) 1.0)"
  using assms
  by (simp add: calculate_spirometry_def pre_floor_def smoker_adjust_def regression_def)

theorem sex_default_female_witness:
  "lower ''Female'' \<noteq> ''male'' \<and> lower ''other'' \<noteq> ''male'' \<and> lower [] \<noteq> ''male''
   \<and> calculate_spirometry 30 170 ''Female'' False = (3.74, 3.65)
   \<and> calculate_spirometry 30 170 ''other'' False = (3.74, 3.65)
   \<and> calculate_spirometry 30 170 [] False = (3.74, 3.65)
   \<and> calculate_spirometry 30 170 ''MALE'' False = (4.58, 3.74)"
proof -
  have "calculate_spirometry 30 170 ''MALE'' False = (4.58, 3.74)"
    by (simp add: calculate_spirometry_def pre_floor_def smoker_adjust_def regression_def
        lower_MALE)
  then show ?thesis
    using lower_Female lower_other
      sex_default_female [OF lower_Female, where age = 30 and height = 170]
      sex_default_female [OF lower_other(1), where age = 30 and height = 170]
      sex_default_female [OF lower_other(2), where age = 30 and height = 170]
    by simp
qed

subsection \<open>Breath simulation: library functions\<close>

lemma length_linspace: "length (linspace a b n) = n"
  by (simp add: linspace_def Let_def)

lemma nth_linspace:
  assumes "i < n"
  shows "linspace a b n ! i = a + real i * ((b - a) / real (n - 1))"
proof (cases "n > 1 \<and> i = n - 1")
  case True
  then have "real (n - 1) \<noteq> 0" by simp
  then have "a + real (n - 1) * ((b - a) / real (n - 1)) = b" by simp
  with True assms show ?thesis by (simp add: linspace_def Let_def)
next
  case False
  with assms show ?thesis by (auto simp: linspace_def Let_def nth_list_update add.commute)
qed

lemma trapz_sum:
  assumes "length y = length x"
  shows "trapz y x = trapezoid_rule (\<lambda>k. y ! k) (\<lambda>k. x ! k) (length x)"
proof -
  let ?zs = "map2 (\<lambda>d s. d * s / 2) (diff x) (map2 (\<lambda>a b. a + b) (tl y) (butlast y))"
  have len: "length ?zs = length x - 1" using assms by (simp add: diff_def)
  have "sum_list ?zs = (\<Sum>k = 0..<length ?zs. ?zs ! k)" by (rule sum_list_sum_nth)
  also have "\<dots> = (\<Sum>k = 0..<length x - 1. (x ! (k + 1) - x ! k) * (y ! (k + 1) + y ! k) / 2)"
    unfolding len using assms
    by (intro sum.cong refl) (simp add: diff_def nth_tl nth_butlast)
  finally show ?thesis by (simp add: trapz_def trapezoid_rule_def lessThan_atLeast0)
qed

lemma trapz_take:
  assumes "length y = length x" "n \<le> length x"
  shows "trapz (take n y) (take n x) = trapezoid_rule (\<lambda>k. y ! k) (\<lambda>k. x ! k) n"
proof -
  have "trapz (take n y) (take n x)
          = trapezoid_rule (\<lambda>k. take n y ! k) (\<lambda>k. take n x ! k) (length (take n x))"
    using assms by (intro trapz_sum) simp
  also have "\<dots> = trapezoid_rule (\<lambda>k. y ! k) (\<lambda>k. x ! k) n"
    using assms unfolding trapezoid_rule_def
  proof -
    have "\<And>k. k < n - 1 \<Longrightarrow> take n x ! (k + 1) = x ! (k + 1) \<and> take n x ! k = x ! k
              \<and> take n y ! (k + 1) = y ! (k + 1) \<and> take n y ! k = y ! k"
      by simp
    then show "(\<Sum>k<length (take n x) - 1.
                 (take n x ! (k + 1) - take n x ! k) * (take n y ! (k + 1) + take n y ! k) / 2)
             = (\<Sum>k<n - 1. (x ! (k + 1) - x ! k) * (y ! (k + 1) + y ! k) / 2)"
      using assms by (simp add: min_absorb2)
  qed
  finally show ?thesis .
qed

subsection \<open>Breath simulation: the loop\<close>

lemma update_next:
  assumes "k < n"
  shows "(map f [0..<k] @ replicate (n - k) z)[k := v] = map f [0..<k] @ v # replicate (n - Suc k) z"
proof -
  have "replicate (n - k) z = z # replicate (n - Suc k) z"
    using assms by (simp add: Suc_diff_Suc flip: replicate_Suc)
  then show ?thesis by (simp add: list_update_append)
qed

lemma nth_next: "(map f [0..<k] @ v # zs) ! k = v"
  by (simp add: nth_append)

lemma replicate_update_same: "(replicate n z)[0 := z] = replicate n z"
  by (cases n) simp_all

lemma trapz_single: "trapz [a] x = 0"
  by (simp add: trapz_def)

lemma loop_body_step:
  assumes "k < total_points"
  shows "loop_body t pk dc nz
           \<lparr>flow = map (flow_at pk dc nz) [0..<k] @ replicate (total_points - k) 0,
            volume = map (volume_at t (flow_at pk dc nz)) [0..<k] @ replicate (total_points - k) 0,
            display = display_upto t (flow_at pk dc nz) k\<rparr> k
         = \<lparr>flow = map (flow_at pk dc nz) [0..<Suc k] @ replicate (total_points - Suc k) 0,
            volume = map (volume_at t (flow_at pk dc nz)) [0..<Suc k]
                     @ replicate (total_points - Suc k) 0,
            display = display_upto t (flow_at pk dc nz) (Suc k)\<rparr>"
proof -
  let ?F = "flow_at pk dc nz"
  let ?V = "volume_at t ?F"
  define fl0 where "fl0 = map ?F [0..<k] @ replicate (total_points - k) 0"
  define vl0 where "vl0 = map ?V [0..<k] @ replicate (total_points - k) 0"
  define raw where
    "raw = (pk * (real k / real total_points)) * exp (- dc * real k / real total_points)"
  define fl1 where "fl1 = fl0[k := raw]"
  define fl2 where "fl2 = fl1[k := fl1 ! k + nz k]"
  define vl1 where
    "vl1 = (if k > 0 then vl0[k := trapz (take (k + 1) fl2) (take (k + 1) t)] else vl0)"
  have fl1: "fl1 = map ?F [0..<k] @ raw # replicate (total_points - Suc k) 0"
    unfolding fl1_def fl0_def by (rule update_next [OF assms])
  have fl1k: "fl1 ! k = raw" unfolding fl1 by (rule nth_next)
  have Fk: "raw + nz k = ?F k" by (simp add: flow_at_def raw_def)
  have "fl2 = fl0[k := ?F k]" unfolding fl2_def fl1k Fk by (simp add: fl1_def)
  then have fl2: "fl2 = map ?F [0..<Suc k] @ replicate (total_points - Suc k) 0"
    by (simp add: fl0_def update_next [OF assms])
  have tk: "take (k + 1) fl2 = map ?F [0..<k + 1]" unfolding fl2 by simp
  have fl2k: "fl2 ! k = ?F k" unfolding fl2 by (simp add: nth_append)
  have "vl1 = vl0[k := ?V k]"
  proof (cases "k > 0")
    case True
    then show ?thesis unfolding vl1_def tk by (simp add: volume_at_def)
  next
    case False
    then have k0: "k = 0" by simp
    have "?V 0 = 0" by (simp add: volume_at_def trapz_single)
    then show ?thesis using k0 by (simp add: vl1_def vl0_def replicate_update_same)
  qed
  then have vl1: "vl1 = map ?V [0..<Suc k] @ replicate (total_points - Suc k) 0"
    by (simp add: vl0_def update_next [OF assms])
  have vl1k: "vl1 ! k = ?V k" unfolding vl1 by (simp add: nth_append)
  have "loop_body t pk dc nz \<lparr>flow = fl0, volume = vl0, display = display_upto t ?F k\<rparr> k
        = \<lparr>flow = fl2, volume = vl1,
           display = (if k mod 20 = 0
                      then display_upto t ?F k @ [Readout (t ! k) (fl2 ! k) (vl1 ! k)]
                      else display_upto t ?F k)
                     @ [Redraw (take (k + 1) t) (take (k + 1) fl2)]\<rparr>"
    by (simp add: loop_body_def Let_def fl2_def fl1_def raw_def vl1_def)
  also have "\<dots> = \<lparr>flow = fl2, volume = vl1, display = display_upto t ?F (Suc k)\<rparr>"
    unfolding tk fl2k vl1k by (simp add: display_upto_def)
  finally show ?thesis unfolding fl0_def vl0_def fl2 vl1 .
qed

lemma loop_invariant:
  assumes "k \<le> total_points"
  shows "foldl (loop_body t pk dc nz)
           \<lparr>flow = zeros total_points, volume = zeros total_points, display = [AxClear]\<rparr>
           [0..<k]
         = \<lparr>flow = map (flow_at pk dc nz) [0..<k] @ replicate (total_points - k) 0,
            volume = map (volume_at t (flow_at pk dc nz)) [0..<k] @ replicate (total_points - k) 0,
            display = display_upto t (flow_at pk dc nz) k\<rparr>"
  using assms
proof (induction k)
  case 0
  show ?case by (simp add: zeros_def display_upto_def)
next
  case (Suc k)
  then have "k < total_points" "k \<le> total_points" by simp_all
  then show ?case using Suc.IH loop_body_step [of k t pk dc nz] by simp
qed

lemma breath_loop_closed:
  "breath_loop fvc_pred rng
     = \<lparr>flow = map (flow_at (peak_flow_of fvc_pred rng) (decay_of rng) (normal rng)) [0..<total_points],
        volume = map (volume_at time_grid
                        (flow_at (peak_flow_of fvc_pred rng) (decay_of rng) (normal rng)))
                   [0..<total_points],
        display = display_upto time_grid
                    (flow_at (peak_flow_of fvc_pred rng) (decay_of rng) (normal rng)) total_points\<rparr>"
  unfolding breath_loop_def by (simp add: loop_invariant)

lemma display_upto_Suc:
  "display_upto t f (Suc k)
     = display_upto t f k
       @ (if k mod 20 = 0 then [Readout (t ! k) (f k) (volume_at t f k)] else [])
       @ [Redraw (take (k + 1) t) (map f [0..<k + 1])]"
  by (simp add: display_upto_def)

lemma filter_readout_display:
  "filter is_readout (display_upto t f k)
     = map (\<lambda>i. Readout (t ! i) (f i) (volume_at t f i)) (filter (\<lambda>i. i mod 20 = 0) [0..<k])"
proof (induction k)
  case 0
  show ?case by (simp add: display_upto_def)
next
  case (Suc k)
  then show ?case by (simp add: display_upto_Suc)
qed

lemma filter_redraw_display:
  "filter is_redraw (display_upto t f k)
     = map (\<lambda>i. Redraw (take (i + 1) t) (map f [0..<i + 1])) [0..<k]"
proof (induction k)
  case 0
  show ?case by (simp add: display_upto_def)
next
  case (Suc k)
  then show ?case by (simp add: display_upto_Suc)
qed

lemma every_20th: "filter (\<lambda>i. i mod 20 = 0) [0..<total_points] = [0, 20, 40, 60, 80, 100]"
  unfolding total_points_def by code_simp

lemma length_time_grid: "length time_grid = total_points"
  by (simp add: time_grid_def length_linspace)

lemma nth_time_grid:
  assumes "i < total_points"
  shows "time_grid ! i = real i * (6 / 119)"
  using nth_linspace [OF assms, of 0 6] by (simp add: time_grid_def total_points_def)

lemma flow_closed:
  "flow (breath_loop fvc_pred rng)
     = map (flow_at (peak_flow_of fvc_pred rng) (decay_of rng) (normal rng)) [0..<total_points]"
  by (simp add: breath_loop_closed)

lemma volume_closed:
  "volume (breath_loop fvc_pred rng)
     = map (volume_at time_grid (flow_at (peak_flow_of fvc_pred rng) (decay_of rng) (normal rng)))
         [0..<total_points]"
  by (simp add: breath_loop_closed)

lemma display_closed:
  "display (breath_loop fvc_pred rng)
     = display_upto time_grid (flow_at (peak_flow_of fvc_pred rng) (decay_of rng) (normal rng))
         total_points"
  by (simp add: breath_loop_closed)

lemma take_flow:
  assumes "i < total_points"
  shows "take (i + 1) (flow (breath_loop fvc_pred rng))
           = map (flow_at (peak_flow_of fvc_pred rng) (decay_of rng) (normal rng)) [0..<i + 1]"
  using assms unfolding flow_closed by (simp add: take_map take_upt)

lemma take_flow_Suc:
  assumes "i < total_points"
  shows "take (Suc i) (flow (breath_loop fvc_pred rng))
           = map (flow_at (peak_flow_of fvc_pred rng) (decay_of rng) (normal rng)) [0..<Suc i]"
  using take_flow [OF assms] by simp

lemma nth_volume_at:
  assumes "i < total_points"
  shows "volume (breath_loop fvc_pred rng) ! i
           = volume_at time_grid (flow_at (peak_flow_of fvc_pred rng) (decay_of rng) (normal rng)) i"
  using assms unfolding volume_closed by simp

lemma nth_flow:
  assumes "i < total_points"
  shows "flow (breath_loop fvc_pred rng) ! i
           = flow_at (peak_flow_of fvc_pred rng) (decay_of rng) (normal rng) i"
  using assms unfolding flow_closed by simp

lemma nth_volume:
  assumes "i < total_points"
  shows "volume (breath_loop fvc_pred rng) ! i
           = trapz (take (i + 1) (flow (breath_loop fvc_pred rng))) (take (i + 1) time_grid)"
  using assms unfolding take_flow [OF assms] unfolding volume_closed by (simp add: volume_at_def)

lemma readouts_closed:
  "filter is_readout (display (breath_loop fvc_pred rng))
     = map (\<lambda>i. Readout (time_grid ! i) (flow (breath_loop fvc_pred rng) ! i)
                          (volume (breath_loop fvc_pred rng) ! i))
         [0, 20, 40, 60, 80, 100]"
proof -
  let ?F = "flow_at (peak_flow_of fvc_pred rng) (decay_of rng) (normal rng)"
  have "filter is_readout (display (breath_loop fvc_pred rng))
          = map (\<lambda>i. Readout (time_grid ! i) (?F i) (volume_at time_grid ?F i))
              [0, 20, 40, 60, 80, 100]"
    unfolding display_closed filter_readout_display every_20th ..
  moreover have "\<And>i. i \<in> set [0, 20, 40, 60, 80, 100::nat] \<Longrightarrow> i < total_points"
    by (auto simp: total_points_def)
  then have "map (\<lambda>i. Readout (time_grid ! i) (?F i) (volume_at time_grid ?F i))
               [0, 20, 40, 60, 80, 100]
           = map (\<lambda>i. Readout (time_grid ! i) (flow (breath_loop fvc_pred rng) ! i)
                          (volume (breath_loop fvc_pred rng) ! i))
               [0, 20, 40, 60, 80, 100]"
    by (intro map_cong refl) (simp only: nth_flow nth_volume_at)
  ultimately show ?thesis by simp
qed

lemma redraws_closed:
  "filter is_redraw (display (breath_loop fvc_pred rng))
     = map (\<lambda>i. Redraw (take (i + 1) time_grid) (take (i + 1) (flow (breath_loop fvc_pred rng))))
         [0..<total_points]"
  unfolding display_closed filter_redraw_display
  by (intro map_cong refl) (simp only: take_flow atLeastLessThan_iff set_upt)

lemma length_flow: "length (flow (breath_loop fvc_pred rng)) = total_points"
  by (simp add: flow_closed)

lemma length_volume: "length (volume (breath_loop fvc_pred rng)) = total_points"
  by (simp add: volume_closed)

lemma sixth_of_points: "nat \<lfloor>real total_points / 6\<rfloor> = 20"
  by (simp add: total_points_def)

subsection \<open>Breath simulation: measured values, time grid, trace, display\<close>

text \<open>
  Claim C3. For every run of \<open>simulate_breath\<close>, the measured FEV1 is the trapezoidal-rule
  integral of the flow over the first \<open>total_points div 6 = 20\<close> samples against their time
  values, and the measured FVC is the trapezoidal-rule integral of the whole flow series
  over the whole time grid.
\<close>

theorem measured_by_trapezoid:
  "fst (simulate_breath fvc_pred fev1_pred rng)
     = trapz (flow (breath_loop fvc_pred rng)) time_grid
   \<and> snd (simulate_breath fvc_pred fev1_pred rng)
     = trapz (take (total_points div 6) (flow (breath_loop fvc_pred rng)))
         (take (total_points div 6) time_grid)
   \<and> fst (simulate_breath fvc_pred fev1_pred rng)
     = trapezoid_rule (\<lambda>k. flow (breath_loop fvc_pred rng) ! k) (\<lambda>k. time_grid ! k) total_points
   \<and> snd (simulate_breath fvc_pred fev1_pred rng)
     = trapezoid_rule (\<lambda>k. flow (breath_loop fvc_pred rng) ! k) (\<lambda>k. time_grid ! k)
         (total_points div 6)
   \<and> length (flow (breath_loop fvc_pred rng)) = total_points
   \<and> length time_grid = total_points
   \<and> total_points div 6 = 20"
proof -
  let ?s = "breath_loop fvc_pred rng"
  have len: "length (flow ?s) = length time_grid"
    by (simp add: length_flow length_time_grid)
  have d: "total_points div 6 = 20" by (simp add: total_points_def)
  have le: "20 \<le> length time_grid" by (simp add: length_time_grid total_points_def)
  have fvc: "fst (simulate_breath fvc_pred fev1_pred rng) = trapz (flow ?s) time_grid"
    by (simp add: simulate_breath_def Let_def)
  have fev1: "snd (simulate_breath fvc_pred fev1_pred rng)
                = trapz (take 20 (flow ?s)) (take 20 time_grid)"
    by (simp add: simulate_breath_def Let_def sixth_of_points)
  have "trapz (flow ?s) time_grid
          = trapezoid_rule (\<lambda>k. flow ?s ! k) (\<lambda>k. time_grid ! k) total_points"
    using trapz_sum [OF len] by (simp add: length_time_grid)
  moreover have "trapz (take 20 (flow ?s)) (take 20 time_grid)
          = trapezoid_rule (\<lambda>k. flow ?s ! k) (\<lambda>k. time_grid ! k) 20"
    by (rule trapz_take [OF len le])
  ultimately show ?thesis
    unfolding d using fvc fev1 by (simp add: length_flow length_time_grid)
qed

text \<open>
  Claim C4, as stated: the time of sample \<open>i\<close> would be \<open>(i / total_points) * 6\<close>, that is
  \<open>0.05 * i\<close>, and the last sample's time 5.95. The grid of the source has neither value.
\<close>

theorem time_grid_counterexample:
  "time_grid ! 119 \<noteq> (119 / real total_points) * 6.0 \<and> time_grid ! 119 \<noteq> 5.95
   \<and> time_grid ! 1 \<noteq> 0.05 * 1"
proof -
  have "time_grid ! 119 = 119 * (6 / 119)" "time_grid ! 1 = 1 * (6 / 119)"
    using nth_time_grid [of 119] nth_time_grid [of 1] by (simp_all add: total_points_def)
  then show ?thesis by (simp add: total_points_def)
qed

text \<open>
  Claim C4, amended. For every sample index \<open>i\<close> below \<open>total_points\<close> the time value is
  \<open>i * 6 / (total_points - 1)\<close>, that is \<open>6 i / 119\<close>, so the last sample's time is 6.0
  seconds.
\<close>

theorem time_grid_values:
  assumes "i < total_points"
  shows "time_grid ! i = real i * 6.0 / real (total_points - 1)
       \<and> time_grid ! i = 6 * real i / 119
       \<and> length time_grid = total_points
       \<and> time_grid ! (total_points - 1) = 6.0"
proof -
  have "time_grid ! (total_points - 1) = real (total_points - 1) * (6 / 119)"
    by (rule nth_time_grid) (simp add: total_points_def)
  then have "time_grid ! (total_points - 1) = 6" by (simp add: total_points_def)
  then show ?thesis
    using nth_time_grid [OF assms] by (simp add: length_time_grid total_points_def)
qed

theorem time_grid_values_witness:
  "(119::nat) < total_points \<and> time_grid ! 119 = 6 \<and> (1::nat) < total_points
   \<and> time_grid ! 1 = 6 / 119"
  using time_grid_values [of 119] time_grid_values [of 1] by (simp add: total_points_def)

text \<open>
  Claim C5. The trace of every run has exactly \<open>total_points = 120\<close> samples, its first
  volume sample is 0, each volume sample \<open>i\<close> is the trapezoidal-rule integral of the flow
  samples 0 to \<open>i\<close> over the time values 0 to \<open>i\<close>, and the flow at index \<open>i\<close> without its
  noise is \<open>peak_flow * (i / total_points) * exp (- decay * i / total_points)\<close> with
  \<open>peak_flow = fvc_pred * (0.8 + 0.4 * rand1)\<close> and \<open>decay = 2.5 + rand2\<close>, the same for
  all samples of the run.
\<close>

theorem trace_invariants:
  assumes "i < total_points"
  shows "length (flow (breath_loop fvc_pred rng)) = total_points
       \<and> length (volume (breath_loop fvc_pred rng)) = total_points
       \<and> length time_grid = total_points
       \<and> total_points = 120
       \<and> volume (breath_loop fvc_pred rng) ! 0 = 0
       \<and> volume (breath_loop fvc_pred rng) ! i
           = trapz (take (i + 1) (flow (breath_loop fvc_pred rng))) (take (i + 1) time_grid)
       \<and> volume (breath_loop fvc_pred rng) ! i
           = trapezoid_rule (\<lambda>k. flow (breath_loop fvc_pred rng) ! k) (\<lambda>k. time_grid ! k) (i + 1)
       \<and> flow (breath_loop fvc_pred rng) ! i - normal rng i
           = (fvc_pred * (0.8 + 0.4 * rand1 rng)) * (real i / real total_points)
             * exp (- (2.5 + rand2 rng) * (real i / real total_points))"
proof -
  let ?s = "breath_loop fvc_pred rng"
  have len: "length (flow ?s) = length time_grid"
    by (simp add: length_flow length_time_grid)
  have le: "i + 1 \<le> length time_grid" using assms by (simp add: length_time_grid)
  have v: "volume ?s ! i = trapz (take (i + 1) (flow ?s)) (take (i + 1) time_grid)"
    by (rule nth_volume [OF assms])
  have v': "volume ?s ! i = trapezoid_rule (\<lambda>k. flow ?s ! k) (\<lambda>k. time_grid ! k) (i + 1)"
    unfolding v by (rule trapz_take [OF len le])
  have "0 < total_points" by (simp add: total_points_def)
  then have "volume ?s ! 0 = trapz (take (0 + 1) (flow ?s)) (take (0 + 1) time_grid)"
    by (rule nth_volume)
  also have "\<dots> = 0"
    using \<open>0 < total_points\<close> by (simp add: take_flow_Suc trapz_single)
  finally have v0: "volume ?s ! 0 = 0" .
  have f: "flow ?s ! i - normal rng i
             = (fvc_pred * (0.8 + 0.4 * rand1 rng)) * (real i / real total_points)
               * exp (- (2.5 + rand2 rng) * (real i / real total_points))"
    unfolding nth_flow [OF assms] by (simp add: flow_at_def peak_flow_of_def decay_of_def)
  show ?thesis
    using v v' v0 f by (simp add: length_flow length_volume length_time_grid total_points_def)
qed

theorem trace_invariants_witness:
  "(1::nat) < total_points
   \<and> length (flow (breath_loop 3 quiet_source)) = 120
   \<and> length (volume (breath_loop 3 quiet_source)) = 120
   \<and> volume (breath_loop 3 quiet_source) ! 0 = 0
   \<and> flow (breath_loop 3 quiet_source) ! 0 = 0
   \<and> flow (breath_loop 3 quiet_source) ! 1 = exp (- (1 / 40)) / 40
   \<and> volume (breath_loop 3 quiet_source) ! 1 = 3 * exp (- (1 / 40)) / 4760"
proof -
  let ?s = "breath_loop 3 quiet_source"
  have h0: "(0::nat) < total_points" and h1: "(1::nat) < total_points"
    by (simp_all add: total_points_def)
  note w0 = trace_invariants [OF h0, of 3 quiet_source]
  note w1 = trace_invariants [OF h1, of 3 quiet_source]
  have r: "rand1 quiet_source = 1 / 2" "rand2 quiet_source = 1 / 2"
    "normal quiet_source 0 = 0" "normal quiet_source 1 = 0"
    by (simp_all add: quiet_source_def no_noise_def)
  have f0: "flow ?s ! 0 = 0" using w0 by (simp add: r)
  have "flow ?s ! 1 - normal quiet_source 1
          = (3 * (0.8 + 0.4 * rand1 quiet_source)) * (real 1 / real total_points)
            * exp (- (2.5 + rand2 quiet_source) * (real 1 / real total_points))"
    using w1 by blast
  then have f1: "flow ?s ! 1 = exp (- (1 / 40)) / 40"
    unfolding r total_points_def by simp
  have t: "time_grid ! 0 = 0" "time_grid ! 1 = 6 / 119"
    using nth_time_grid [OF h0] nth_time_grid [OF h1] by simp_all
  have "volume ?s ! 1 = trapezoid_rule (\<lambda>k. flow ?s ! k) (\<lambda>k. time_grid ! k) (1 + 1)"
    using w1 by blast
  also have "\<dots> = (time_grid ! 1 - time_grid ! 0) * (flow ?s ! 1 + flow ?s ! 0) / 2"
    by (simp add: trapezoid_rule_def)
  also have "\<dots> = 3 * exp (- (1 / 40)) / 4760"
    unfolding t f0 f1 by simp
  finally have v1: "volume ?s ! 1 = 3 * exp (- (1 / 40)) / 4760" .
  have "length (flow ?s) = 120" "length (volume ?s) = 120" "volume ?s ! 0 = 0"
    using w1 by simp_all
  then show ?thesis using h1 f0 f1 v1 by blast
qed

text \<open>
  Claim C9, as stated: the readouts would be updated from \<open>(t[i], flow[i], volume[i])\<close> once
  per sample, \<open>total_points\<close> times in a run. On a concrete run they are updated 6 times.
\<close>

theorem readout_count_counterexample:
  "length (filter is_readout (display (breath_loop 3 quiet_source))) \<noteq> total_points
   \<and> length (filter is_readout (display (breath_loop 3 quiet_source))) = 6"
  by (simp add: readouts_closed total_points_def)

text \<open>
  Claim C9, amended. In a run the readouts are updated from \<open>(t[i], flow[i], volume[i])\<close>
  exactly for the indices \<open>i\<close> with \<open>i mod 20 = 0\<close>, that is 6 times, for
  \<open>i = 0, 20, 40, 60, 80, 100\<close> in this order; what is done once per sample,
  \<open>total_points\<close> times in index order, is the chart redraw, which receives the series
  \<open>t[0..i]\<close> and \<open>flow[0..i]\<close>.
\<close>

theorem display_events:
  "filter is_readout (display (breath_loop fvc_pred rng))
     = map (\<lambda>i. Readout (time_grid ! i) (flow (breath_loop fvc_pred rng) ! i)
                          (volume (breath_loop fvc_pred rng) ! i))
         [0, 20, 40, 60, 80, 100]
   \<and> filter is_redraw (display (breath_loop fvc_pred rng))
     = map (\<lambda>i. Redraw (take (i + 1) time_grid) (take (i + 1) (flow (breath_loop fvc_pred rng))))
         [0..<total_points]
   \<and> length (filter is_redraw (display (breath_loop fvc_pred rng))) = total_points"
  by (simp add: readouts_closed redraws_closed)

end
